theory Spec2Isabelle
  imports Complex_Main
begin

section \<open>Powers Explorer: scale mathematics, distance index, selection, light travel\<close>

text \<open>
  The functions below are the ones of \<^verbatim>\<open>ScaleCalculator\<close>, \<^verbatim>\<open>DataManager\<close>,
  \<^verbatim>\<open>StateManager\<close>, \<^verbatim>\<open>ObjectSelector\<close> and \<^verbatim>\<open>LightSpeedTraveler\<close>.

  Numbers: a JavaScript number is modelled by the real number it denotes, and
  \<open>+\<close>, \<open>*\<close>, \<open>/\<close>, \<open>Math.min\<close>, \<open>Math.max\<close> and the comparisons by the exact
  operations on reals. \<open>NaN\<close> and the infinities are not inputs of the model; where
  the code produces \<open>Infinity\<close> itself the result type says so. A division is only
  used in a theorem where the divisor is not zero (in HOL \<open>x / 0 = 0\<close>, in
  JavaScript it is \<open>Infinity\<close> or \<open>NaN\<close>). In \<^verbatim>\<open>formatTime\<close>, where the digits
  printed depend on it, the quotient is rounded to a double as the code's division is.
\<close>

subsection \<open>Constants.js\<close>

definition MIN_SIZE :: real where
  "MIN_SIZE = 10"

definition MAX_SCREEN_RATIO :: real where
  "MAX_SCREEN_RATIO = 4 / 10"

definition LIGHT_MAX :: real where
  "LIGHT_MAX = 10000"

definition MAX_SELECTIONS :: nat where
  "MAX_SELECTIONS = 2"

subsection \<open>ScaleCalculator.calculateScreenDiameter\<close>

definition calculateScreenDiameter :: "real \<Rightarrow> real \<Rightarrow> real \<Rightarrow> real" where
  "calculateScreenDiameter realDiameter screenWidth referenceSize =
     (let maxScreenSize = screenWidth * MAX_SCREEN_RATIO;
          minScreenSize = MIN_SIZE;
          ratio = realDiameter / referenceSize;
          screenSize = maxScreenSize * ratio
      in max minScreenSize (min screenSize maxScreenSize))"

subsection \<open>LightSpeedTraveler\<close>

text \<open>
  The fields the constructor and \<^verbatim>\<open>calculateAnimationDuration\<close> assign:
  \<^verbatim>\<open>travelTime\<close> (seconds), \<^verbatim>\<open>animationDuration\<close> (milliseconds),
  \<^verbatim>\<open>isTimeLapsed\<close> and \<^verbatim>\<open>speedMultiplier\<close>.
\<close>

record LightTravel =
  travelTime :: real
  animationDuration :: real
  isTimeLapsed :: bool
  speedMultiplier :: real

text \<open>
  \<^verbatim>\<open>calculateAnimationDuration\<close> reads \<^verbatim>\<open>this.travelTime\<close> and the constant
  \<^verbatim>\<open>ANIMATION_DURATION.LIGHT_MAX\<close>; the cap is the first argument here, and the
  constructor below passes \<open>LIGHT_MAX\<close>.
\<close>

definition calculateAnimationDuration :: "real \<Rightarrow> real \<Rightarrow> LightTravel" where
  "calculateAnimationDuration lightMax travelTime' =
     (let realTimeMs = travelTime' * 1000;
          animationDuration' = min realTimeMs lightMax
      in if realTimeMs > lightMax
         then \<lparr>travelTime = travelTime', animationDuration = animationDuration',
               isTimeLapsed = True, speedMultiplier = realTimeMs / lightMax\<rparr>
         else \<lparr>travelTime = travelTime', animationDuration = animationDuration',
               isTimeLapsed = False, speedMultiplier = 1\<rparr>)"

text \<open>
  The constructor, from \<^verbatim>\<open>realDistance\<close> and the speed of light it reads from the
  loaded constants. A \<^verbatim>\<open>throw\<close> would be the value \<open>Inl\<close>; the constructor and
  \<^verbatim>\<open>calculateAnimationDuration\<close> contain no \<^verbatim>\<open>throw\<close> and no check of their
  inputs, so no branch of the model is \<open>Inl\<close>.
\<close>

datatype error = Error string

definition LightSpeedTraveler :: "real \<Rightarrow> real \<Rightarrow> error + LightTravel" where
  "LightSpeedTraveler realDistance speedOfLight =
     (let travelTime' = realDistance / speedOfLight
      in Inr (calculateAnimationDuration LIGHT_MAX travelTime'))"

subsection \<open>Selection: StateManager.selectObject and ObjectSelector.selectObject\<close>

text \<open>
  \<^verbatim>\<open>Array.prototype.shift\<close>: removes the element at index 0 and returns it;
  on an empty array it returns \<^verbatim>\<open>undefined\<close> (here \<open>None\<close>) and leaves the array empty.
\<close>

definition shift :: "'a list \<Rightarrow> 'a option \<times> 'a list" where
  "shift xs = (case xs of [] \<Rightarrow> (None, []) | x # rest \<Rightarrow> (Some x, rest))"

text \<open>
  \<^verbatim>\<open>StateManager.selectObject\<close> works on \<^verbatim>\<open>state.comparison.selectedObjects\<close>,
  \<^verbatim>\<open>ObjectSelector.selectObject\<close> on \<^verbatim>\<open>selectedIds\<close> with
  \<^verbatim>\<open>maxSelections = MAX_SELECTIONS\<close>; the two bodies are the same. The result is
  the value of the call and the array after it. Neither method has a \<^verbatim>\<open>return\<close>
  statement, so the value of every call is \<^verbatim>\<open>undefined\<close>, here \<open>None\<close>. The
  identifier \<^verbatim>\<open>shift()\<close> takes out is bound to the block-local \<^verbatim>\<open>removed\<close>
  (\<^verbatim>\<open>removedId\<close>), which is logged (and passed to \<^verbatim>\<open>deselectCard\<close>) and
  then dropped.
\<close>

definition selectObject :: "string \<Rightarrow> string list \<Rightarrow> string option \<times> string list" where
  "selectObject objectId selectedObjects =
     (let selectedObjects =
            (if length selectedObjects \<ge> MAX_SELECTIONS
             then (let (removed, rest) = shift selectedObjects in rest)
             else selectedObjects)
      in (None, selectedObjects @ [objectId]))"

definition clearSelection :: "string list \<Rightarrow> string list" where
  "clearSelection selectedObjects = []"

text \<open>A sequence of calls, applied from left to right to the selection.\<close>

datatype operation = Select string | Clear

fun run :: "operation list \<Rightarrow> string list \<Rightarrow> string list" where
  "run [] selectedObjects = selectedObjects"
| "run (Select objectId # ops) selectedObjects =
     run ops (snd (selectObject objectId selectedObjects))"
| "run (Clear # ops) selectedObjects = run ops (clearSelection selectedObjects)"

subsection \<open>Distance index: DataManager.buildIndexes and DataManager.getDistance\<close>

text \<open>
  An entry of \<^verbatim>\<open>cosmicObjects.distances\<close>. The JSON fields \<^verbatim>\<open>from\<close> and \<^verbatim>\<open>to\<close>
  are \<open>from'\<close> and \<open>to'\<close> here.
\<close>

record DistanceRecord =
  from' :: string
  to' :: string
  distance :: real
  lightTravelTime :: real

text \<open>
  The distance part of \<^verbatim>\<open>buildIndexes\<close>: \<^verbatim>\<open>distanceCache\<close> is cleared and then
  every entry is \<^verbatim>\<open>set\<close> under its key, in the order of the array.
\<close>

definition buildIndexes :: "DistanceRecord list \<Rightarrow> (string \<rightharpoonup> DistanceRecord)" where
  "buildIndexes distances =
     foldl (\<lambda>distanceCache dist.
              let key = from' dist @ ''-'' @ to' dist in distanceCache(key \<mapsto> dist))
       Map.empty distances"

text \<open>
  \<^verbatim>\<open>distanceCache.get(key1) || distanceCache.get(key2)\<close>: the entries are objects, so
  the first operand is falsy exactly when the key is absent (\<^verbatim>\<open>undefined\<close>, here
  \<open>None\<close>).
\<close>

definition getDistance ::
  "(string \<rightharpoonup> DistanceRecord) \<Rightarrow> string \<Rightarrow> string \<Rightarrow> DistanceRecord option" where
  "getDistance distanceCache fromId toId =
     (let key1 = fromId @ ''-'' @ toId;
          key2 = toId @ ''-'' @ fromId
      in case distanceCache key1 of
           Some found \<Rightarrow> Some found
         | None \<Rightarrow> distanceCache key2)"

text \<open>
  A record set that stores each unordered pair in a single direction: no entry between
  two different objects has its reverse in the set.
\<close>

definition singleDirection :: "DistanceRecord list \<Rightarrow> bool" where
  "singleDirection distances =
     (\<forall>r \<in> set distances. \<forall>r' \<in> set distances.
        from' r \<noteq> to' r \<longrightarrow> \<not> (from' r' = to' r \<and> to' r' = from' r))"

subsection \<open>ScaleCalculator.calculateSizeRatio\<close>

text \<open>
  The result of \<^verbatim>\<open>calculateSizeRatio\<close> is a quotient of its arguments or the
  JavaScript value \<^verbatim>\<open>Infinity\<close>, which the code returns by name.
\<close>

datatype ratio = Finite real | Infinity

definition calculateSizeRatio :: "real \<Rightarrow> real \<Rightarrow> ratio" where
  "calculateSizeRatio diameter1 diameter2 =
     (let larger = max diameter1 diameter2;
          smaller = min diameter1 diameter2
      in if smaller = 0 then Infinity else Finite (larger / smaller))"

subsection \<open>ScaleCalculator.formatTime\<close>

text \<open>
  \<^verbatim>\<open>Number.prototype.toFixed(f)\<close> of ECMAScript, for a finite number \<open>x\<close> and
  \<open>0 \<le> f \<le> 100\<close> (the code passes 2 and 3). Below \<open>10^21\<close> the result is the fixed-point
  notation: with \<open>n\<close> the integer nearest to \<open>x * 10^f\<close> (the larger one on a tie), the
  decimal digits of \<open>n\<close>, padded with zeros on the left to \<open>f + 1\<close> digits, with a point
  before the last \<open>f\<close> digits. \<open>decimal\<close> gives the digits of \<open>n\<close> without leading
  zeros (\<open>0\<close> is \<open>''0''\<close>).
\<close>

fun decimal :: "nat \<Rightarrow> string" where
  "decimal n =
     (if n < 10 then [''0123456789'' ! n]
      else decimal (n div 10) @ [''0123456789'' ! (n mod 10)])"

declare decimal.simps [simp del]

definition fixedNotation :: "nat \<Rightarrow> real \<Rightarrow> string" where
  "fixedNotation f x =
     (let n = nat \<lfloor>x * 10 ^ f + 1 / 2\<rfloor>;
          m = decimal n
      in if f \<noteq> 0 then
           let k = length m;
               (m, k) = (if k \<le> f then (replicate (f + 1 - k) (CHR ''0'') @ m, f + 1)
                         else (m, k));
               a = take (k - f) m;
               b = drop (k - f) m
           in a @ ''.'' @ b
         else m)"

text \<open>
  The sign is split off first. From \<open>10^21\<close> on, \<^verbatim>\<open>toFixed\<close> does not print fixed-point
  notation: it returns what \<^verbatim>\<open>String(x)\<close> returns, the exponential notation
  (\<^verbatim>\<open>(1e21).toFixed(2)\<close> is \<^verbatim>\<open>"1e+21"\<close>), whose digits depend on the binary
  representation of \<open>x\<close>. That branch is the value \<open>None\<close> here.
\<close>

definition toFixed :: "nat \<Rightarrow> real \<Rightarrow> string option" where
  "toFixed f x =
     (let s = (if x < 0 then ''-'' else '''');
          x = (if x < 0 then - x else x)
      in if x \<ge> 10 ^ 21 then None
         else Some (s @ fixedNotation f x))"

text \<open>
  The division of \<^verbatim>\<open>formatTime\<close> is the division of doubles: the quotient is the
  double nearest to the exact quotient, on a tie the one with the even significand
  (IEEE 754 binary64). \<open>roundToDouble\<close> rounds a real to 53 significant bits;
  \<open>binaryExponent x\<close> is, for \<open>x > 0\<close>, the \<open>e\<close> with \<open>2^e \<le> x < 2^(e+1)\<close> and
  \<open>bitLength n\<close> the number of binary digits of \<open>n > 0\<close>. The exponent is held at
  \<open>-1022\<close> for the subnormal numbers. Results from \<open>2^1024\<close> on, where a double is
  \<^verbatim>\<open>Infinity\<close>, do not arise here: \<^verbatim>\<open>formatTime\<close> divides a double by 60 or more.
\<close>

function bitLength :: "int \<Rightarrow> nat" where
  "bitLength n = (if n \<le> 0 then 0 else Suc (bitLength (n div 2)))"
  by pat_completeness auto
termination
  by (relation "measure nat") auto

declare bitLength.simps [simp del]

definition binaryExponent :: "real \<Rightarrow> int" where
  "binaryExponent x =
     (if 1 \<le> x then int (bitLength \<lfloor>x\<rfloor>) - 1
      else - int (bitLength (\<lceil>1 / x\<rceil> - 1)))"

definition roundToDouble :: "real \<Rightarrow> real" where
  "roundToDouble x =
     (if x = 0 then 0
      else
        let e = max (binaryExponent \<bar>x\<bar>) (- 1022);
            ulp = (if 52 \<le> e then 2 ^ nat (e - 52) else 1 / 2 ^ nat (52 - e));
            q = \<bar>x\<bar> / ulp;
            n = (if q - of_int \<lfloor>q\<rfloor> < 1 / 2 then \<lfloor>q\<rfloor>
                 else if 1 / 2 < q - of_int \<lfloor>q\<rfloor> then \<lfloor>q\<rfloor> + 1
                 else if even \<lfloor>q\<rfloor> then \<lfloor>q\<rfloor>
                 else \<lfloor>q\<rfloor> + 1)
        in sgn x * of_int n * ulp)"

text \<open>
  \<^verbatim>\<open>formatTime\<close>: the comparisons are exact, the quotient is a double, and the
  template literals append the unit to the text of the number.
\<close>

definition formatTime :: "real \<Rightarrow> string option" where
  "formatTime seconds =
     (if seconds < 60 then
        map_option (\<lambda>t. t @ '' seconds'') (toFixed 3 seconds)
      else if seconds < 3600 then
        map_option (\<lambda>t. t @ '' minutes'') (toFixed 2 (roundToDouble (seconds / 60)))
      else if seconds < 86400 then
        map_option (\<lambda>t. t @ '' hours'') (toFixed 2 (roundToDouble (seconds / 3600)))
      else if seconds < 31536000 then
        map_option (\<lambda>t. t @ '' days'') (toFixed 2 (roundToDouble (seconds / 86400)))
      else
        map_option (\<lambda>t. t @ '' years'') (toFixed 2 (roundToDouble (seconds / 31536000))))"

text \<open>
  Reading a string of decimal digits back as a number, to say what a printed text
  denotes.
\<close>

definition digitValue :: "char \<Rightarrow> nat" where
  "digitValue c = of_char c - 48"

definition decimalValue :: "string \<Rightarrow> nat" where
  "decimalValue s = foldl (\<lambda>v c. 10 * v + digitValue c) 0 s"

section \<open>Properties\<close>

subsection \<open>Screen diameter\<close>

text \<open>
  C1 (as stated, refuted): the claim bounds the result by \<open>screenWidth * MAX_RATIO\<close> for
  every positive screen width. At \<open>screenWidth = 10\<close> the upper end of the clamp is 4,
  below \<open>MIN_PX = 10\<close>; \<open>Math.max\<close> is applied last, so the result is 10, above
  \<open>screenWidth * MAX_RATIO\<close>.
\<close>

theorem calculateScreenDiameter_counterexample:
  "(0::real) \<le> 1 \<and> (0::real) < 10 \<and> (0::real) < 1 \<and>
   calculateScreenDiameter 1 10 1 = 10 \<and>
   \<not> (MIN_SIZE \<le> calculateScreenDiameter 1 10 1 \<and>
        calculateScreenDiameter 1 10 1 \<le> 10 * MAX_SCREEN_RATIO)"
  by (simp add: calculateScreenDiameter_def MIN_SIZE_def MAX_SCREEN_RATIO_def)

text \<open>
  C1 (amended): for every \<open>realDiameter \<ge> 0\<close>, \<open>screenWidth > 0\<close> and
  \<open>referenceSize > 0\<close> the result is at least \<open>MIN_PX\<close> and at most the larger of
  \<open>MIN_PX\<close> and \<open>screenWidth * MAX_RATIO\<close>; it lies within
  \<open>[MIN_PX, screenWidth * MAX_RATIO]\<close> whenever that interval is not empty
  (\<open>screenWidth \<ge> 25\<close>), and it is \<open>MIN_PX\<close> on every narrower screen;
  \<open>realDiameter = 0\<close> yields \<open>MIN_PX\<close>.
\<close>

theorem calculateScreenDiameter_bounds:
  assumes "0 \<le> realDiameter" and "0 < screenWidth" and "0 < referenceSize"
  shows "MIN_SIZE \<le> calculateScreenDiameter realDiameter screenWidth referenceSize \<and>
         calculateScreenDiameter realDiameter screenWidth referenceSize
           \<le> max MIN_SIZE (screenWidth * MAX_SCREEN_RATIO) \<and>
         (25 \<le> screenWidth \<longrightarrow>
           calculateScreenDiameter realDiameter screenWidth referenceSize
             \<le> screenWidth * MAX_SCREEN_RATIO) \<and>
         (screenWidth < 25 \<longrightarrow>
           calculateScreenDiameter realDiameter screenWidth referenceSize = MIN_SIZE) \<and>
         calculateScreenDiameter 0 screenWidth referenceSize = MIN_SIZE"
proof -
  define M where "M = screenWidth * MAX_SCREEN_RATIO"
  define S where "S = M * (realDiameter / referenceSize)"
  have res: "calculateScreenDiameter realDiameter screenWidth referenceSize
               = max MIN_SIZE (min S M)"
    by (simp add: calculateScreenDiameter_def Let_def M_def S_def)
  have zero: "calculateScreenDiameter 0 screenWidth referenceSize = max MIN_SIZE (min 0 M)"
    by (simp add: calculateScreenDiameter_def Let_def M_def)
  have M_pos: "0 < M"
    using assms(2) by (simp add: M_def MAX_SCREEN_RATIO_def)
  have wide: "MIN_SIZE \<le> M" if "25 \<le> screenWidth"
    using that by (simp add: M_def MAX_SCREEN_RATIO_def MIN_SIZE_def)
  have narrow: "M < MIN_SIZE" if "screenWidth < 25"
    using that by (simp add: M_def MAX_SCREEN_RATIO_def MIN_SIZE_def)
  have "MIN_SIZE \<le> max MIN_SIZE (min S M)"
    by simp
  moreover have "max MIN_SIZE (min S M) \<le> max MIN_SIZE M"
    by (simp add: max_def min_def)
  moreover have "max MIN_SIZE (min S M) \<le> M" if "25 \<le> screenWidth"
    using wide [OF that] by (simp add: max_def min_def)
  moreover have "max MIN_SIZE (min S M) = MIN_SIZE" if "screenWidth < 25"
    using narrow [OF that] by (simp add: max_def min_def)
  moreover have "max MIN_SIZE (min 0 M) = MIN_SIZE"
    using M_pos by (simp add: max_def min_def MIN_SIZE_def)
  ultimately show ?thesis
    unfolding res zero M_def [symmetric] by blast
qed

text \<open>The Earth (12742 km) against the Sun (1.3927 million km) on the 1280 pixel canvas.\<close>

theorem calculateScreenDiameter_bounds_witness:
  "(0::real) \<le> 12742000 \<and> (0::real) < 1280 \<and> (0::real) < 1392700000 \<and>
   (25::real) \<le> 1280 \<and>
   MIN_SIZE \<le> calculateScreenDiameter 12742000 1280 1392700000 \<and>
   calculateScreenDiameter 12742000 1280 1392700000 \<le> 1280 * MAX_SCREEN_RATIO \<and>
   calculateScreenDiameter 0 1280 1392700000 = MIN_SIZE \<and>
   (0::real) \<le> 1 \<and> (0::real) < 10 \<and> (10::real) < 25 \<and>
   calculateScreenDiameter 1 10 1 = MIN_SIZE"
  using calculateScreenDiameter_bounds [of 12742000 1280 1392700000]
    calculateScreenDiameter_bounds [of 1 10 1]
  by simp

subsection \<open>Light travel\<close>

text \<open>
  C5: for every \<open>distanceMeters > 0\<close>, \<open>speedOfLight > 0\<close> and \<open>capMs > 0\<close> the plan
  has \<open>animationDurationMs \<le> capMs\<close>, \<open>speedMultiplier \<ge> 1\<close>, and
  \<open>speedMultiplier = 1\<close> exactly when \<open>isTimeLapsed\<close> is false; the multiplier is
  \<open>realTimeMs / capMs\<close> exactly when \<open>realTimeMs > capMs\<close>. The animation duration is
  the smaller of \<open>realTimeMs\<close> and \<open>capMs\<close>. The constructor computes this plan with
  the cap \<open>LIGHT_MAX = 10000\<close>.
\<close>

theorem calculateAnimationDuration_plan:
  assumes "0 < distanceMeters" and "0 < speedOfLight" and "0 < capMs"
  defines "realTimeMs \<equiv> distanceMeters / speedOfLight * 1000"
  defines "plan \<equiv> calculateAnimationDuration capMs (distanceMeters / speedOfLight)"
  shows "animationDuration plan \<le> capMs \<and>
         animationDuration plan = min realTimeMs capMs \<and>
         1 \<le> speedMultiplier plan \<and>
         (speedMultiplier plan = 1 \<longleftrightarrow> isTimeLapsed plan = False) \<and>
         (isTimeLapsed plan \<longleftrightarrow> capMs < realTimeMs) \<and>
         (capMs < realTimeMs \<longrightarrow> speedMultiplier plan = realTimeMs / capMs) \<and>
         LightSpeedTraveler distanceMeters speedOfLight
           = Inr (calculateAnimationDuration LIGHT_MAX (distanceMeters / speedOfLight))"
proof -
  have ctor: "LightSpeedTraveler distanceMeters speedOfLight
           = Inr (calculateAnimationDuration LIGHT_MAX (distanceMeters / speedOfLight))"
    by (simp add: LightSpeedTraveler_def Let_def)
  have dur: "animationDuration plan = min realTimeMs capMs"
    by (simp add: plan_def realTimeMs_def calculateAnimationDuration_def Let_def)
  have lapsed: "isTimeLapsed plan \<longleftrightarrow> capMs < realTimeMs"
    by (simp add: plan_def realTimeMs_def calculateAnimationDuration_def Let_def)
  have mult: "speedMultiplier plan = (if capMs < realTimeMs then realTimeMs / capMs else 1)"
    by (simp add: plan_def realTimeMs_def calculateAnimationDuration_def Let_def)
  have quot: "1 < realTimeMs / capMs" if "capMs < realTimeMs"
    using that assms(3) by simp
  show ?thesis
  proof (cases "capMs < realTimeMs")
    case True
    with quot [OF True] ctor show ?thesis
      unfolding dur lapsed mult by simp
  next
    case False
    with ctor show ?thesis
      unfolding dur lapsed mult by simp
  qed
qed

text \<open>
  The Moon (384400 km, about 1.28 s, played at real speed) and the Sun (149.6 million km,
  about 499 s, time-lapsed) at the code's cap of 10 s.
\<close>

theorem calculateAnimationDuration_plan_witness:
  "(0::real) < 384400000 \<and> (0::real) < 299792458 \<and> (0::real) < 10000 \<and>
   animationDuration (calculateAnimationDuration 10000 (384400000 / 299792458)) \<le> 10000 \<and>
   speedMultiplier (calculateAnimationDuration 10000 (384400000 / 299792458)) = 1 \<and>
   isTimeLapsed (calculateAnimationDuration 10000 (384400000 / 299792458)) = False \<and>
   (0::real) < 149600000000 \<and>
   (10000::real) < 149600000000 / 299792458 * 1000 \<and>
   animationDuration (calculateAnimationDuration 10000 (149600000000 / 299792458)) = 10000 \<and>
   isTimeLapsed (calculateAnimationDuration 10000 (149600000000 / 299792458)) \<and>
   speedMultiplier (calculateAnimationDuration 10000 (149600000000 / 299792458))
     = 149600000000 / 299792458 * 1000 / 10000"
  using calculateAnimationDuration_plan [of 384400000 299792458 10000]
    calculateAnimationDuration_plan [of 149600000000 299792458 10000]
  by simp

text \<open>
  C2 (as stated, refuted): the claim says that a distance \<open>\<le> 0\<close> is rejected with an
  error. The constructor checks nothing: at distance 0, and at the negative distance
  \<open>-299792458\<close>, with the speed of light \<open>299792458\<close>, it returns a plan.
\<close>

theorem LightSpeedTraveler_counterexample:
  "(0::real) \<le> 0 \<and> (-299792458::real) \<le> 0 \<and>
   \<not> isl (LightSpeedTraveler 0 299792458) \<and>
   LightSpeedTraveler 0 299792458
     = Inr \<lparr>travelTime = 0, animationDuration = 0, isTimeLapsed = False,
            speedMultiplier = 1\<rparr> \<and>
   \<not> isl (LightSpeedTraveler (-299792458) 299792458) \<and>
   LightSpeedTraveler (-299792458) 299792458
     = Inr \<lparr>travelTime = -1, animationDuration = -1000, isTimeLapsed = False,
            speedMultiplier = 1\<rparr>"
  by (simp add: LightSpeedTraveler_def calculateAnimationDuration_def LIGHT_MAX_def Let_def)

text \<open>
  C2 (amended): whenever \<open>speedOfLight\<close> is not zero and the travel time
  \<open>distanceMeters / speedOfLight\<close> is not positive (\<open>distanceMeters \<le> 0\<close> with a positive
  speed, or \<open>distanceMeters \<ge> 0\<close> with a negative one), no error is raised: the code
  returns the degenerate plan whose animation duration is \<open>1000 * travelTime \<le> 0\<close>,
  not time-lapsed, with multiplier 1.
\<close>

theorem LightSpeedTraveler_degenerate:
  assumes "speedOfLight \<noteq> 0" and "distanceMeters / speedOfLight \<le> 0"
  shows "LightSpeedTraveler distanceMeters speedOfLight
           = Inr \<lparr>travelTime = distanceMeters / speedOfLight,
                  animationDuration = distanceMeters / speedOfLight * 1000,
                  isTimeLapsed = False, speedMultiplier = 1\<rparr> \<and>
         distanceMeters / speedOfLight * 1000 \<le> 0"
proof -
  define t where "t = distanceMeters / speedOfLight"
  have "t \<le> 0"
    unfolding t_def by (rule assms(2))
  then have t: "t * 1000 \<le> 0"
    by (simp add: mult_le_0_iff)
  then have "\<not> t * 1000 > LIGHT_MAX" and "min (t * 1000) LIGHT_MAX = t * 1000"
    by (simp_all add: LIGHT_MAX_def)
  then have plan: "calculateAnimationDuration LIGHT_MAX t
               = \<lparr>travelTime = t, animationDuration = t * 1000,
                  isTimeLapsed = False, speedMultiplier = 1\<rparr>"
    by (simp add: calculateAnimationDuration_def Let_def)
  have "LightSpeedTraveler distanceMeters speedOfLight
          = Inr (calculateAnimationDuration LIGHT_MAX t)"
    by (simp add: LightSpeedTraveler_def Let_def t_def)
  with plan t show ?thesis
    unfolding t_def by (simp only: simp_thms)
qed

theorem LightSpeedTraveler_degenerate_witness:
  "(299792458::real) \<noteq> 0 \<and> (-299792458::real) / 299792458 \<le> 0 \<and>
   LightSpeedTraveler (-299792458) 299792458
     = Inr \<lparr>travelTime = -1, animationDuration = -1000, isTimeLapsed = False,
            speedMultiplier = 1\<rparr>"
  using LightSpeedTraveler_degenerate [of 299792458 "-299792458"]
  by simp

subsection \<open>Selection\<close>

lemma selectObject_below:
  "length xs < MAX_SELECTIONS \<Longrightarrow> selectObject objectId xs = (None, xs @ [objectId])"
  by (simp add: selectObject_def)

lemma selectObject_full:
  "length xs = MAX_SELECTIONS \<Longrightarrow>
     selectObject objectId xs = (None, [xs ! 1, objectId]) \<and>
     shift xs = (Some (xs ! 0), [xs ! 1]) \<and> xs = [xs ! 0, xs ! 1]"
  by (cases xs; cases "tl xs")
    (auto simp: selectObject_def shift_def MAX_SELECTIONS_def)

lemma length_selectObject:
  "length xs \<le> MAX_SELECTIONS \<Longrightarrow> length (snd (selectObject objectId xs)) \<le> MAX_SELECTIONS"
  by (cases "length xs < MAX_SELECTIONS")
    (simp_all add: selectObject_below selectObject_full MAX_SELECTIONS_def)

lemma length_run:
  "length xs \<le> MAX_SELECTIONS \<Longrightarrow> length (run ops xs) \<le> MAX_SELECTIONS"
proof (induction ops arbitrary: xs)
  case Nil
  then show ?case by simp
next
  case (Cons operation ops)
  show ?case
  proof (cases operation)
    case (Select objectId)
    with Cons.IH [OF length_selectObject [OF Cons.prems]] show ?thesis
      by simp
  next
    case Clear
    with Cons.IH [of "[]"] show ?thesis
      by (simp add: clearSelection_def)
  qed
qed

text \<open>
  C3 (as stated, refuted): the claim has the third call return the evicted identifier.
  After earth and moon the selection is \<open>[earth, moon]\<close>; the call for sun has the value
  \<^verbatim>\<open>undefined\<close>, as every call has, not \<open>earth\<close>.
\<close>

theorem selectObject_returns_counterexample:
  "run [Select ''earth'', Select ''moon''] [] = [''earth'', ''moon''] \<and>
   fst (selectObject ''sun'' [''earth'', ''moon'']) = None \<and>
   fst (selectObject ''sun'' [''earth'', ''moon'']) \<noteq> Some ''earth''"
  by (simp add: selectObject_def shift_def MAX_SELECTIONS_def)

text \<open>
  C3 (amended): from the empty selection, \<open>select(A)\<close>, \<open>select(B)\<close>, \<open>select(C)\<close> leave
  the selection \<open>[B, C]\<close>: the first two calls append and take nothing out, the third
  takes out \<open>A\<close>, the element \<^verbatim>\<open>shift()\<close> yields from index 0 of \<open>[A, B]\<close>, and
  appends \<open>C\<close>. No call returns a value: the evicted identifier is not returned. (The
  identifiers need not even be distinct.) The scenario earth, moon, sun leaves
  \<open>[moon, sun]\<close>.
\<close>

theorem selectObject_three:
  "selectObject A [] = (None, [A]) \<and>
   selectObject B [A] = (None, [A, B]) \<and>
   selectObject C [A, B] = (None, [B, C]) \<and>
   shift [A, B] = (Some A, [B]) \<and>
   run [Select A, Select B, Select C] [] = [B, C] \<and>
   run [Select ''earth'', Select ''moon'', Select ''sun''] [] = [''moon'', ''sun''] \<and>
   shift (run [Select ''earth'', Select ''moon''] []) = (Some ''earth'', [''moon''])"
  by (simp add: selectObject_def shift_def MAX_SELECTIONS_def)

text \<open>
  C6: after every sequence of \<open>select\<close> and \<open>clear\<close> calls from the empty selection the
  length is at most the capacity 2. A further \<open>select\<close> below capacity appends and takes
  nothing out; at capacity the selection is \<open>[selected!0, selected!1]\<close>, \<^verbatim>\<open>shift()\<close>
  takes out the element at index 0, the oldest, and the new selection keeps the one at
  index 1, the most recently added, in front of the new identifier. Nothing is
  deduplicated: below capacity the identifier occurs once more than before, also when
  it was present; \<open>clear\<close> empties the selection.
\<close>

theorem selection_fifo:
  fixes ops :: "operation list"
  defines "selected \<equiv> run ops []"
  shows "length selected \<le> MAX_SELECTIONS \<and>
         (length selected < MAX_SELECTIONS \<longrightarrow>
            selectObject objectId selected = (None, selected @ [objectId]) \<and>
            count_list (snd (selectObject objectId selected)) objectId
              = count_list selected objectId + 1) \<and>
         (length selected = MAX_SELECTIONS \<longrightarrow>
            selected = [selected ! 0, selected ! 1] \<and>
            shift selected = (Some (selected ! 0), [selected ! 1]) \<and>
            selectObject objectId selected = (None, [selected ! 1, objectId])) \<and>
         length (snd (selectObject objectId selected)) \<le> MAX_SELECTIONS \<and>
         clearSelection selected = []"
proof -
  have len: "length selected \<le> MAX_SELECTIONS"
    unfolding selected_def by (rule length_run) simp
  have full: "selected = [selected ! 0, selected ! 1] \<and>
      shift selected = (Some (selected ! 0), [selected ! 1]) \<and>
      selectObject objectId selected = (None, [selected ! 1, objectId])"
    if "length selected = MAX_SELECTIONS"
    using selectObject_full [OF that, of objectId] by blast
  have below: "selectObject objectId selected = (None, selected @ [objectId]) \<and>
      count_list (snd (selectObject objectId selected)) objectId
        = count_list selected objectId + 1"
    if "length selected < MAX_SELECTIONS"
    using that by (simp add: selectObject_below)
  from len length_selectObject [OF len, of objectId] full below show ?thesis
    by (simp add: clearSelection_def)
qed

theorem selection_fifo_witness:
  "length (run [Select ''earth''] []) < MAX_SELECTIONS \<and>
   selectObject ''earth'' (run [Select ''earth''] []) = (None, [''earth'', ''earth'']) \<and>
   length (run [Select ''earth'', Select ''moon'', Select ''sun''] []) = MAX_SELECTIONS \<and>
   run [Select ''earth'', Select ''moon'', Select ''sun''] [] = [''moon'', ''sun''] \<and>
   shift (run [Select ''earth'', Select ''moon'', Select ''sun''] [])
     = (Some ''moon'', [''sun'']) \<and>
   selectObject ''mars'' (run [Select ''earth'', Select ''moon'', Select ''sun''] [])
     = (None, [''sun'', ''mars''])"
  using selection_fifo [of "[Select ''earth'']" "''earth''"]
    selection_fifo [of "[Select ''earth'', Select ''moon'', Select ''sun'']" "''mars''"]
  by (simp add: selectObject_def shift_def MAX_SELECTIONS_def)

subsection \<open>Distance index\<close>

lemma foldl_upd_map_of:
  assumes F: "\<And>m d. F m d = m(f d \<mapsto> d)"
  shows "foldl F m ds = m ++ map_of (rev (map (\<lambda>d. (f d, d)) ds))"
proof (induction ds arbitrary: m)
  case Nil
  then show ?case by simp
next
  case (Cons d ds)
  have "foldl F m (d # ds) = foldl F (m(f d \<mapsto> d)) ds"
    by (simp only: foldl_Cons F)
  also have "\<dots> = m(f d \<mapsto> d) ++ map_of (rev (map (\<lambda>d. (f d, d)) ds))"
    by (rule Cons.IH)
  also have "\<dots> = m ++ map_of (rev (map (\<lambda>d. (f d, d)) (d # ds)))"
    by (simp add: map_of_append)
  finally show ?case .
qed

lemma buildIndexes_map_of:
  "buildIndexes ds = map_of (rev (map (\<lambda>d. (from' d @ ''-'' @ to' d, d)) ds))"
proof -
  have "buildIndexes ds
          = Map.empty ++ map_of (rev (map (\<lambda>d. (from' d @ ''-'' @ to' d, d)) ds))"
    unfolding buildIndexes_def
    by (rule foldl_upd_map_of) (simp add: Let_def)
  then show ?thesis by simp
qed

lemma buildIndexes_Some:
  "buildIndexes ds k = Some d \<Longrightarrow> d \<in> set ds \<and> from' d @ ''-'' @ to' d = k"
  by (auto simp: buildIndexes_map_of dest!: map_of_SomeD)

lemma buildIndexes_None:
  "buildIndexes ds k = None \<longleftrightarrow> (\<forall>d \<in> set ds. from' d @ ''-'' @ to' d \<noteq> k)"
  by (force simp: buildIndexes_map_of map_of_eq_None_iff)

lemma buildIndexes_last:
  "buildIndexes (ds @ [d]) (from' d @ ''-'' @ to' d) = Some d"
  by (simp add: buildIndexes_map_of)

lemma key_inject:
  assumes "x @ ''-'' @ y = a @ ''-'' @ b"
    and "CHR ''-'' \<notin> set a" and "CHR ''-'' \<notin> set b"
  shows "x = a \<and> y = b"
  using assms
  by (auto simp: append_eq_append_conv2 append_eq_Cons_conv Cons_eq_append_conv)

lemma buildIndexes_key:
  assumes "buildIndexes ds (a @ ''-'' @ b) = Some d"
    and "CHR ''-'' \<notin> set a" and "CHR ''-'' \<notin> set b"
  shows "d \<in> set ds \<and> from' d = a \<and> to' d = b"
  using buildIndexes_Some [OF assms(1)] key_inject [OF _ assms(2,3)] by blast

text \<open>
  C4 (as stated, refuted): two records, each unordered pair stored in one direction,
  \<open>a-b \<rightarrow> a\<close> and \<open>b-a \<rightarrow> a\<close>. The query \<open>(a, b-a)\<close> builds the key \<open>a-b-a\<close>
  first and finds the first record; the query \<open>(b-a, a)\<close> builds \<open>b-a-a\<close> first and
  finds the second.
\<close>

theorem getDistance_symmetry_counterexample:
  "singleDirection
     [\<lparr>from' = ''a-b'', to' = ''a'', distance = 1, lightTravelTime = 1\<rparr>,
      \<lparr>from' = ''b-a'', to' = ''a'', distance = 2, lightTravelTime = 2\<rparr>] \<and>
   getDistance (buildIndexes
     [\<lparr>from' = ''a-b'', to' = ''a'', distance = 1, lightTravelTime = 1\<rparr>,
      \<lparr>from' = ''b-a'', to' = ''a'', distance = 2, lightTravelTime = 2\<rparr>]) ''a'' ''b-a''
     = Some \<lparr>from' = ''a-b'', to' = ''a'', distance = 1, lightTravelTime = 1\<rparr> \<and>
   getDistance (buildIndexes
     [\<lparr>from' = ''a-b'', to' = ''a'', distance = 1, lightTravelTime = 1\<rparr>,
      \<lparr>from' = ''b-a'', to' = ''a'', distance = 2, lightTravelTime = 2\<rparr>]) ''b-a'' ''a''
     = Some \<lparr>from' = ''b-a'', to' = ''a'', distance = 2, lightTravelTime = 2\<rparr> \<and>
   getDistance (buildIndexes
     [\<lparr>from' = ''a-b'', to' = ''a'', distance = 1, lightTravelTime = 1\<rparr>,
      \<lparr>from' = ''b-a'', to' = ''a'', distance = 2, lightTravelTime = 2\<rparr>]) ''a'' ''b-a''
     \<noteq> getDistance (buildIndexes
     [\<lparr>from' = ''a-b'', to' = ''a'', distance = 1, lightTravelTime = 1\<rparr>,
      \<lparr>from' = ''b-a'', to' = ''a'', distance = 2, lightTravelTime = 2\<rparr>]) ''b-a'' ''a''"
  by (simp add: singleDirection_def buildIndexes_def getDistance_def Let_def)

text \<open>
  C4 (amended): for every index built from a record set that stores each unordered pair
  in a single direction, and for every pair of identifiers \<open>(a, b)\<close> neither of which
  contains the separator \<open>-\<close>, \<open>lookup(a, b)\<close> and \<open>lookup(b, a)\<close> return the identical
  result: a stored record between \<open>a\<close> and \<open>b\<close> if one orientation is present, the
  not-found signal otherwise.
\<close>

theorem getDistance_symmetric:
  assumes single: "singleDirection distances"
    and a: "CHR ''-'' \<notin> set a" and b: "CHR ''-'' \<notin> set b"
  shows "getDistance (buildIndexes distances) a b = getDistance (buildIndexes distances) b a \<and>
         (getDistance (buildIndexes distances) a b = None \<longleftrightarrow>
            (\<forall>r \<in> set distances.
               \<not> (from' r = a \<and> to' r = b) \<and> \<not> (from' r = b \<and> to' r = a))) \<and>
         (\<forall>r. getDistance (buildIndexes distances) a b = Some r \<longrightarrow>
            r \<in> set distances \<and>
            (from' r = a \<and> to' r = b \<or> from' r = b \<and> to' r = a))"
proof -
  define cache where "cache = buildIndexes distances"
  define k1 where "k1 = a @ ''-'' @ b"
  define k2 where "k2 = b @ ''-'' @ a"
  have ab: "getDistance cache a b = (case cache k1 of Some r \<Rightarrow> Some r | None \<Rightarrow> cache k2)"
    unfolding getDistance_def k1_def k2_def Let_def by (rule refl)
  have ba: "getDistance cache b a = (case cache k2 of Some r \<Rightarrow> Some r | None \<Rightarrow> cache k1)"
    unfolding getDistance_def k1_def k2_def Let_def by (rule refl)
  have some1: "r \<in> set distances \<and> from' r = a \<and> to' r = b" if "cache k1 = Some r" for r
    using that buildIndexes_key [OF _ a b] by (simp add: cache_def k1_def)
  have some2: "r \<in> set distances \<and> from' r = b \<and> to' r = a" if "cache k2 = Some r" for r
    using that buildIndexes_key [OF _ b a] by (simp add: cache_def k2_def)
  have none1: "cache k1 = None \<longleftrightarrow> (\<forall>r \<in> set distances. \<not> (from' r = a \<and> to' r = b))"
  proof
    assume "cache k1 = None"
    then show "\<forall>r \<in> set distances. \<not> (from' r = a \<and> to' r = b)"
      by (auto simp: cache_def k1_def buildIndexes_None)
  next
    assume "\<forall>r \<in> set distances. \<not> (from' r = a \<and> to' r = b)"
    then show "cache k1 = None"
      using some1 by (cases "cache k1") auto
  qed
  have none2: "cache k2 = None \<longleftrightarrow> (\<forall>r \<in> set distances. \<not> (from' r = b \<and> to' r = a))"
  proof
    assume "cache k2 = None"
    then show "\<forall>r \<in> set distances. \<not> (from' r = b \<and> to' r = a)"
      by (auto simp: cache_def k2_def buildIndexes_None)
  next
    assume "\<forall>r \<in> set distances. \<not> (from' r = b \<and> to' r = a)"
    then show "cache k2 = None"
      using some2 by (cases "cache k2") auto
  qed
  have both: "r1 = r2" if r1: "cache k1 = Some r1" and r2: "cache k2 = Some r2" for r1 r2
  proof (cases "a = b")
    case True
    then have "k1 = k2"
      by (simp add: k1_def k2_def)
    with r1 r2 show ?thesis by simp
  next
    case False
    from some1 [OF r1] some2 [OF r2] False
    have "r1 \<in> set distances" and "r2 \<in> set distances" and "from' r1 \<noteq> to' r1"
      and "from' r2 = to' r1 \<and> to' r2 = from' r1"
      by simp_all
    with single have False
      unfolding singleDirection_def by fast
    then show ?thesis ..
  qed
  have sym: "getDistance cache a b = getDistance cache b a"
    unfolding ab ba using both by (cases "cache k1"; cases "cache k2") auto
  have absent: "getDistance cache a b = None \<longleftrightarrow>
      (\<forall>r \<in> set distances.
         \<not> (from' r = a \<and> to' r = b) \<and> \<not> (from' r = b \<and> to' r = a))"
  proof -
    have "getDistance cache a b = None \<longleftrightarrow> cache k1 = None \<and> cache k2 = None"
      unfolding ab by (cases "cache k1") auto
    then show ?thesis
      unfolding none1 none2 by blast
  qed
  have present: "r \<in> set distances \<and> (from' r = a \<and> to' r = b \<or> from' r = b \<and> to' r = a)"
    if "getDistance cache a b = Some r" for r
  proof (cases "cache k1")
    case None
    with that have "cache k2 = Some r"
      by (simp add: ab)
    from some2 [OF this] show ?thesis by blast
  next
    case (Some r1)
    with that have "cache k1 = Some r"
      by (simp add: ab)
    from some1 [OF this] show ?thesis by blast
  qed
  from sym absent present show ?thesis
    unfolding cache_def by blast
qed

text \<open>Earth-Moon and Earth-Sun, each stored once; the Moon-Sun pair is not stored.\<close>

theorem getDistance_symmetric_witness:
  "singleDirection
     [\<lparr>from' = ''earth'', to' = ''moon'', distance = 384400000, lightTravelTime = 1282 / 1000\<rparr>,
      \<lparr>from' = ''earth'', to' = ''sun'', distance = 149600000000, lightTravelTime = 499\<rparr>] \<and>
   CHR ''-'' \<notin> set ''moon'' \<and> CHR ''-'' \<notin> set ''earth'' \<and> CHR ''-'' \<notin> set ''sun'' \<and>
   getDistance (buildIndexes
     [\<lparr>from' = ''earth'', to' = ''moon'', distance = 384400000, lightTravelTime = 1282 / 1000\<rparr>,
      \<lparr>from' = ''earth'', to' = ''sun'', distance = 149600000000, lightTravelTime = 499\<rparr>]) ''moon'' ''earth''
     = getDistance (buildIndexes
     [\<lparr>from' = ''earth'', to' = ''moon'', distance = 384400000, lightTravelTime = 1282 / 1000\<rparr>,
      \<lparr>from' = ''earth'', to' = ''sun'', distance = 149600000000, lightTravelTime = 499\<rparr>]) ''earth'' ''moon'' \<and>
   getDistance (buildIndexes
     [\<lparr>from' = ''earth'', to' = ''moon'', distance = 384400000, lightTravelTime = 1282 / 1000\<rparr>,
      \<lparr>from' = ''earth'', to' = ''sun'', distance = 149600000000, lightTravelTime = 499\<rparr>]) ''moon'' ''earth''
     = Some \<lparr>from' = ''earth'', to' = ''moon'', distance = 384400000, lightTravelTime = 1282 / 1000\<rparr> \<and>
   getDistance (buildIndexes
     [\<lparr>from' = ''earth'', to' = ''moon'', distance = 384400000, lightTravelTime = 1282 / 1000\<rparr>,
      \<lparr>from' = ''earth'', to' = ''sun'', distance = 149600000000, lightTravelTime = 499\<rparr>]) ''moon'' ''sun'' = None \<and>
   getDistance (buildIndexes
     [\<lparr>from' = ''earth'', to' = ''moon'', distance = 384400000, lightTravelTime = 1282 / 1000\<rparr>,
      \<lparr>from' = ''earth'', to' = ''sun'', distance = 149600000000, lightTravelTime = 499\<rparr>]) ''sun'' ''moon'' = None"
  using getDistance_symmetric [of
      "[\<lparr>from' = ''earth'', to' = ''moon'', distance = 384400000, lightTravelTime = 1282 / 1000\<rparr>,
      \<lparr>from' = ''earth'', to' = ''sun'', distance = 149600000000, lightTravelTime = 499\<rparr>]" "''moon''" "''earth''"]
    getDistance_symmetric [of
      "[\<lparr>from' = ''earth'', to' = ''moon'', distance = 384400000, lightTravelTime = 1282 / 1000\<rparr>,
      \<lparr>from' = ''earth'', to' = ''sun'', distance = 149600000000, lightTravelTime = 499\<rparr>]" "''moon''" "''sun''"]
  by (simp add: singleDirection_def buildIndexes_def getDistance_def Let_def)

lemma buildIndexes_snoc:
  "buildIndexes (ds @ [d]) = (buildIndexes ds)(from' d @ ''-'' @ to' d \<mapsto> d)"
  by (simp add: buildIndexes_map_of)

lemma buildIndexes_filter:
  "buildIndexes ds k =
     (if filter (\<lambda>d. from' d @ ''-'' @ to' d = k) ds = [] then None
      else Some (last (filter (\<lambda>d. from' d @ ''-'' @ to' d = k) ds)))"
proof (induction ds rule: rev_induct)
  case Nil
  show ?case by (simp add: buildIndexes_def)
next
  case (snoc d ds)
  then show ?case
    by (simp add: buildIndexes_snoc)
qed

text \<open>
  C9: \<^verbatim>\<open>getDistance\<close> depends on its arguments only through the two key strings:
  two queries with the same keys get the same answer from every cache. The keys of
  different unordered pairs can coincide when identifiers contain \<open>-\<close>: the pairs
  \<open>{a-b, c}\<close> and \<open>{a, b-c}\<close> both have the key \<open>a-b-c\<close>. Under each key the index
  holds the last record of the array with that key, and no other; so after building
  from the two records the lookup for \<open>(a-b, c)\<close>, in either order, returns the record
  stored for \<open>(a, b-c)\<close>.
\<close>

theorem getDistance_key_collision:
  "(a @ ''-'' @ b = a' @ ''-'' @ b' \<longrightarrow> b @ ''-'' @ a = b' @ ''-'' @ a' \<longrightarrow>
      getDistance cache a b = getDistance cache a' b') \<and>
   ''a-b'' @ ''-'' @ ''c'' = ''a'' @ ''-'' @ ''b-c'' \<and>
   {''a-b'', ''c''} \<noteq> {''a'', ''b-c''} \<and>
   buildIndexes ds k =
     (if filter (\<lambda>d. from' d @ ''-'' @ to' d = k) ds = [] then None
      else Some (last (filter (\<lambda>d. from' d @ ''-'' @ to' d = k) ds))) \<and>
   buildIndexes
     [\<lparr>from' = ''a-b'', to' = ''c'', distance = 1, lightTravelTime = 1\<rparr>,
      \<lparr>from' = ''a'', to' = ''b-c'', distance = 2, lightTravelTime = 2\<rparr>] ''a-b-c''
     = Some \<lparr>from' = ''a'', to' = ''b-c'', distance = 2, lightTravelTime = 2\<rparr> \<and>
   getDistance (buildIndexes
     [\<lparr>from' = ''a-b'', to' = ''c'', distance = 1, lightTravelTime = 1\<rparr>,
      \<lparr>from' = ''a'', to' = ''b-c'', distance = 2, lightTravelTime = 2\<rparr>]) ''a-b'' ''c''
     = Some \<lparr>from' = ''a'', to' = ''b-c'', distance = 2, lightTravelTime = 2\<rparr> \<and>
   getDistance (buildIndexes
     [\<lparr>from' = ''a-b'', to' = ''c'', distance = 1, lightTravelTime = 1\<rparr>,
      \<lparr>from' = ''a'', to' = ''b-c'', distance = 2, lightTravelTime = 2\<rparr>]) ''c'' ''a-b''
     = Some \<lparr>from' = ''a'', to' = ''b-c'', distance = 2, lightTravelTime = 2\<rparr>"
proof -
  have keys: "getDistance cache a b = getDistance cache a' b'"
    if "a @ ''-'' @ b = a' @ ''-'' @ b'" and "b @ ''-'' @ a = b' @ ''-'' @ a'"
    unfolding getDistance_def Let_def that by (rule refl)
  have example: "''a-b'' @ ''-'' @ ''c'' = ''a'' @ ''-'' @ ''b-c''"
    "{''a-b'', ''c''} \<noteq> {''a'', ''b-c''}"
    by (simp_all add: doubleton_eq_iff)
  have built: "buildIndexes
     [\<lparr>from' = ''a-b'', to' = ''c'', distance = 1, lightTravelTime = 1\<rparr>,
      \<lparr>from' = ''a'', to' = ''b-c'', distance = 2, lightTravelTime = 2\<rparr>] ''a-b-c''
     = Some \<lparr>from' = ''a'', to' = ''b-c'', distance = 2, lightTravelTime = 2\<rparr>"
    by (simp add: buildIndexes_def Let_def)
  have found: "getDistance (buildIndexes
     [\<lparr>from' = ''a-b'', to' = ''c'', distance = 1, lightTravelTime = 1\<rparr>,
      \<lparr>from' = ''a'', to' = ''b-c'', distance = 2, lightTravelTime = 2\<rparr>]) ''a-b'' ''c''
     = Some \<lparr>from' = ''a'', to' = ''b-c'', distance = 2, lightTravelTime = 2\<rparr>"
    "getDistance (buildIndexes
     [\<lparr>from' = ''a-b'', to' = ''c'', distance = 1, lightTravelTime = 1\<rparr>,
      \<lparr>from' = ''a'', to' = ''b-c'', distance = 2, lightTravelTime = 2\<rparr>]) ''c'' ''a-b''
     = Some \<lparr>from' = ''a'', to' = ''b-c'', distance = 2, lightTravelTime = 2\<rparr>"
    by (simp_all add: buildIndexes_def getDistance_def Let_def)
  from keys example built found buildIndexes_filter [of ds k] show ?thesis
    by blast
qed

text \<open>
  The pairs \<open>{x, x-x-x}\<close> and \<open>{x-x, x-x}\<close> have the same keys in both orders; with only
  a record for the second pair in the index, the lookup for the first pair returns it.
\<close>

theorem getDistance_key_collision_witness:
  "''x'' @ ''-'' @ ''x-x-x'' = ''x-x'' @ ''-'' @ ''x-x'' \<and>
   ''x-x-x'' @ ''-'' @ ''x'' = ''x-x'' @ ''-'' @ ''x-x'' \<and>
   getDistance (buildIndexes [\<lparr>from' = ''x-x'', to' = ''x-x'', distance = 3, lightTravelTime = 3\<rparr>])
       ''x'' ''x-x-x''
     = getDistance (buildIndexes [\<lparr>from' = ''x-x'', to' = ''x-x'', distance = 3, lightTravelTime = 3\<rparr>])
       ''x-x'' ''x-x'' \<and>
   getDistance (buildIndexes [\<lparr>from' = ''x-x'', to' = ''x-x'', distance = 3, lightTravelTime = 3\<rparr>])
       ''x'' ''x-x-x''
     = Some \<lparr>from' = ''x-x'', to' = ''x-x'', distance = 3, lightTravelTime = 3\<rparr>"
  using getDistance_key_collision [of "''x''" "''x-x-x''" "''x-x''" "''x-x''"
      "buildIndexes [\<lparr>from' = ''x-x'', to' = ''x-x'', distance = 3, lightTravelTime = 3\<rparr>]"]
  by (simp add: buildIndexes_def getDistance_def Let_def)

subsection \<open>Size ratio\<close>

text \<open>
  C10: \<^verbatim>\<open>calculateSizeRatio\<close> returns a value for all arguments and the same value
  for both orders of them: \<open>max / min\<close> whenever the smaller diameter is not 0, which is
  at least 1 when both diameters are positive, and \<open>Infinity\<close> whenever the smaller
  diameter is 0 (no division by it takes place).
\<close>

theorem calculateSizeRatio_total:
  "calculateSizeRatio diameter1 diameter2 = calculateSizeRatio diameter2 diameter1 \<and>
   (min diameter1 diameter2 \<noteq> 0 \<longrightarrow>
      calculateSizeRatio diameter1 diameter2
        = Finite (max diameter1 diameter2 / min diameter1 diameter2)) \<and>
   (0 < diameter1 \<and> 0 < diameter2 \<longrightarrow>
      (\<exists>r. calculateSizeRatio diameter1 diameter2 = Finite r \<and> 1 \<le> r)) \<and>
   (min diameter1 diameter2 = 0 \<longrightarrow> calculateSizeRatio diameter1 diameter2 = Infinity)"
proof -
  have val: "calculateSizeRatio x y
               = (if min x y = 0 then Infinity else Finite (max x y / min x y))" for x y
    by (simp add: calculateSizeRatio_def Let_def)
  have comm: "calculateSizeRatio diameter1 diameter2 = calculateSizeRatio diameter2 diameter1"
    unfolding val by (simp add: max.commute min.commute)
  have pos: "min diameter1 diameter2 \<noteq> 0 \<and>
             1 \<le> max diameter1 diameter2 / min diameter1 diameter2"
    if "0 < diameter1 \<and> 0 < diameter2"
    using that by (simp add: min_def max_def)
  have "min diameter1 diameter2 \<noteq> 0 \<longrightarrow>
          calculateSizeRatio diameter1 diameter2
            = Finite (max diameter1 diameter2 / min diameter1 diameter2)"
    unfolding val by simp
  moreover have "0 < diameter1 \<and> 0 < diameter2 \<longrightarrow>
      (\<exists>r. calculateSizeRatio diameter1 diameter2 = Finite r \<and> 1 \<le> r)"
    unfolding val using pos by simp
  moreover have "min diameter1 diameter2 = 0 \<longrightarrow>
      calculateSizeRatio diameter1 diameter2 = Infinity"
    unfolding val by simp
  ultimately show ?thesis
    using comm by blast
qed

text \<open>The Sun against the Earth, a zero diameter against a positive one, and two zeros.\<close>

theorem calculateSizeRatio_total_witness:
  "min (12742000::real) 1392700000 \<noteq> 0 \<and> (0::real) < 12742000 \<and> (0::real) < 1392700000 \<and>
   calculateSizeRatio 12742000 1392700000 = Finite (1392700000 / 12742000) \<and>
   calculateSizeRatio 1392700000 12742000 = Finite (1392700000 / 12742000) \<and>
   (1::real) \<le> 1392700000 / 12742000 \<and>
   min (0::real) 5 = 0 \<and>
   calculateSizeRatio 0 5 = Infinity \<and> calculateSizeRatio 5 0 = Infinity \<and>
   calculateSizeRatio 0 0 = Infinity"
  using calculateSizeRatio_total [of 12742000 1392700000]
    calculateSizeRatio_total [of 0 5] calculateSizeRatio_total [of 0 0]
  by (simp add: calculateSizeRatio_def)

subsection \<open>Time formatting\<close>

lemma digitValue_digit: "d < 10 \<Longrightarrow> digitValue (''0123456789'' ! d) = d"
proof -
  assume "d < 10"
  then consider "d = 0" | "d = 1" | "d = 2" | "d = 3" | "d = 4" | "d = 5" | "d = 6" | "d = 7"
    | "d = 8" | "d = 9"
    by (auto simp: numeral_eq_Suc less_Suc_eq)
  then show ?thesis
    by cases (simp_all add: digitValue_def)
qed

lemma digit_not_point: "d < 10 \<Longrightarrow> ''0123456789'' ! d \<noteq> CHR ''.''"
proof -
  assume "d < 10"
  then consider "d = 0" | "d = 1" | "d = 2" | "d = 3" | "d = 4" | "d = 5" | "d = 6" | "d = 7"
    | "d = 8" | "d = 9"
    by (auto simp: numeral_eq_Suc less_Suc_eq)
  then show ?thesis
    by cases simp_all
qed

lemma decimalValue_snoc: "decimalValue (s @ [c]) = 10 * decimalValue s + digitValue c"
  by (simp add: decimalValue_def)

lemma decimalValue_decimal: "decimalValue (decimal n) = n"
proof (induction n rule: decimal.induct)
  case (1 n)
  show ?case
  proof (cases "n < 10")
    case True
    then show ?thesis
      by (subst decimal.simps) (simp add: decimalValue_def digitValue_digit)
  next
    case False
    with 1 show ?thesis
      by (subst decimal.simps) (simp add: decimalValue_snoc digitValue_digit)
  qed
qed

lemma decimal_nonempty: "decimal n \<noteq> []"
  by (subst decimal.simps) simp

lemma decimal_no_point: "CHR ''.'' \<notin> set (decimal n)"
proof (induction n rule: decimal.induct)
  case (1 n)
  show ?case
  proof (cases "n < 10")
    case True
    then show ?thesis
      using digit_not_point [of n] by (subst decimal.simps) auto
  next
    case False
    with 1 show ?thesis
      using digit_not_point [of "n mod 10"] by (subst decimal.simps) auto
  qed
qed

lemma foldl_zeros:
  "foldl (\<lambda>v c. 10 * v + digitValue c) 0 (replicate k (CHR ''0'')) = 0"
  by (induction k) (simp_all add: digitValue_def)

lemma decimalValue_zeros: "decimalValue (replicate k (CHR ''0'') @ s) = decimalValue s"
  by (simp add: decimalValue_def foldl_zeros)

lemma fixedNotation_shape:
  assumes "0 < f"
  shows "\<exists>a b. fixedNotation f x = a @ ''.'' @ b \<and> a \<noteq> [] \<and> length b = f \<and>
           CHR ''.'' \<notin> set (a @ b) \<and>
           decimalValue (a @ b) = nat \<lfloor>x * 10 ^ f + 1 / 2\<rfloor>"
proof -
  define n where "n = nat \<lfloor>x * 10 ^ f + 1 / 2\<rfloor>"
  define m where "m = (if length (decimal n) \<le> f
    then replicate (f + 1 - length (decimal n)) (CHR ''0'') @ decimal n else decimal n)"
  define k where "k = length m"
  have fixed: "fixedNotation f x = take (k - f) m @ ''.'' @ drop (k - f) m"
    using assms by (simp add: fixedNotation_def Let_def n_def m_def k_def)
  have k: "f < k"
    by (simp add: k_def m_def)
  have val: "decimalValue m = n"
    by (simp add: m_def decimalValue_zeros decimalValue_decimal)
  have point: "CHR ''.'' \<notin> set m"
    using decimal_no_point [of n] by (simp add: m_def)
  have "take (k - f) m \<noteq> []"
    using k by (auto simp: k_def)
  moreover have "length (drop (k - f) m) = f"
    using k by (simp add: k_def)
  ultimately show ?thesis
    unfolding fixed n_def [symmetric] using val point
    by (intro exI [of _ "take (k - f) m"] exI [of _ "drop (k - f) m"]) simp
qed

lemma round_half_up:
  assumes "0 \<le> (y::real)"
  shows "\<bar>real (nat \<lfloor>y + 1 / 2\<rfloor>) - y\<bar> \<le> 1 / 2"
proof -
  have "0 \<le> \<lfloor>y + 1 / 2\<rfloor>"
    using assms by simp
  then have "real (nat \<lfloor>y + 1 / 2\<rfloor>) = of_int \<lfloor>y + 1 / 2\<rfloor>"
    by simp
  then show ?thesis
    by linarith
qed

lemma toFixed_nonneg:
  "0 \<le> x \<Longrightarrow> x < 10 ^ 21 \<Longrightarrow> toFixed f x = Some (fixedNotation f x)"
  by (simp add: toFixed_def Let_def)

lemma toFixed_neg:
  "x < 0 \<Longrightarrow> - (10 ^ 21) < x \<Longrightarrow> toFixed f x = Some (''-'' @ fixedNotation f (- x))"
  by (simp add: toFixed_def Let_def)

lemma toFixed_exponential: "10 ^ 21 \<le> \<bar>x\<bar> \<Longrightarrow> toFixed f x = None"
  by (simp add: toFixed_def Let_def abs_if)

lemma fixedNotation_rounds:
  assumes "0 < f" and "0 \<le> x"
  shows "\<exists>a b. fixedNotation f x = a @ ''.'' @ b \<and> a \<noteq> [] \<and> length b = f \<and>
           CHR ''.'' \<notin> set (a @ b) \<and>
           \<bar>real (decimalValue (a @ b)) / 10 ^ f - x\<bar> \<le> 1 / (2 * 10 ^ f)"
proof -
  from fixedNotation_shape [OF assms(1), of x] obtain a b
    where ab: "fixedNotation f x = a @ ''.'' @ b" "a \<noteq> []" "length b = f"
      "CHR ''.'' \<notin> set (a @ b)"
      and val: "decimalValue (a @ b) = nat \<lfloor>x * 10 ^ f + 1 / 2\<rfloor>"
    by blast
  have "0 \<le> x * 10 ^ f"
    using assms(2) by simp
  from round_half_up [OF this]
  have "\<bar>real (decimalValue (a @ b)) - x * 10 ^ f\<bar> \<le> 1 / 2"
    by (simp add: val)
  then have "\<bar>real (decimalValue (a @ b)) - x * 10 ^ f\<bar> / 10 ^ f \<le> (1 / 2) / 10 ^ f"
    by (rule divide_right_mono) simp
  moreover have "real (decimalValue (a @ b)) / 10 ^ f - x
      = (real (decimalValue (a @ b)) - x * 10 ^ f) / 10 ^ f"
    by (simp add: diff_divide_distrib)
  moreover have "\<bar>(real (decimalValue (a @ b)) - x * 10 ^ f) / 10 ^ f\<bar>
      = \<bar>real (decimalValue (a @ b)) - x * 10 ^ f\<bar> / 10 ^ f"
    by (simp only: abs_divide) simp
  ultimately have "\<bar>real (decimalValue (a @ b)) / 10 ^ f - x\<bar> \<le> 1 / (2 * 10 ^ f)"
    by simp
  with ab show ?thesis
    by blast
qed

lemma bitLength_lower: "0 < n \<Longrightarrow> 2 ^ (bitLength n - 1) \<le> n"
proof (induction n rule: bitLength.induct)
  case (1 n)
  show ?case
  proof (cases "0 < n div 2")
    case True
    with 1 have half: "2 ^ (bitLength (n div 2) - 1) \<le> n div 2"
      by simp
    from True have "0 < bitLength (n div 2)"
      by (subst bitLength.simps) simp
    then have "(2::int) ^ bitLength (n div 2) = 2 * 2 ^ (bitLength (n div 2) - 1)"
      by (cases "bitLength (n div 2)") simp_all
    with half have "(2::int) ^ bitLength (n div 2) \<le> n"
      by linarith
    with 1(2) show ?thesis
      by (subst bitLength.simps) simp
  next
    case False
    then have "bitLength (n div 2) = 0"
      by (subst bitLength.simps) simp
    with 1(2) show ?thesis
      by (subst bitLength.simps) simp
  qed
qed

lemma roundToDouble_bounds:
  assumes "1 \<le> x"
  shows "0 \<le> roundToDouble x \<and> roundToDouble x \<le> 2 * x"
proof -
  define e where "e = max (binaryExponent \<bar>x\<bar>) (- 1022)"
  define ulp :: real
    where "ulp = (if 52 \<le> e then 2 ^ nat (e - 52) else 1 / 2 ^ nat (52 - e))"
  define q where "q = \<bar>x\<bar> / ulp"
  define n where "n = (if q - of_int \<lfloor>q\<rfloor> < 1 / 2 then \<lfloor>q\<rfloor>
                 else if 1 / 2 < q - of_int \<lfloor>q\<rfloor> then \<lfloor>q\<rfloor> + 1
                 else if even \<lfloor>q\<rfloor> then \<lfloor>q\<rfloor>
                 else \<lfloor>q\<rfloor> + 1)"
  have x: "0 < x" "\<bar>x\<bar> = x" "sgn x = 1"
    using assms by simp_all
  have "roundToDouble x = sgn x * of_int n * ulp"
    unfolding roundToDouble_def Let_def e_def ulp_def q_def n_def using x(1) by simp
  then have r: "roundToDouble x = of_int n * ulp"
    by (simp add: x)
  have floor_pos: "0 < \<lfloor>x\<rfloor>"
    using assms by simp
  then have len: "0 < bitLength \<lfloor>x\<rfloor>"
    by (subst bitLength.simps) simp
  have "binaryExponent \<bar>x\<bar> = int (bitLength \<lfloor>x\<rfloor>) - 1"
    using assms by (simp add: binaryExponent_def x)
  with len have e: "e = int (bitLength \<lfloor>x\<rfloor>) - 1" "0 \<le> e"
    by (simp_all add: e_def)
  have ulp_pos: "0 < ulp"
    by (simp add: ulp_def)
  have ulp_le: "ulp \<le> x"
  proof (cases "52 \<le> e")
    case True
    then have "ulp = 2 ^ nat (e - 52)"
      by (simp add: ulp_def)
    also have "\<dots> \<le> 2 ^ (bitLength \<lfloor>x\<rfloor> - 1)"
      using e by (intro power_increasing) simp_all
    also have "\<dots> = of_int (2 ^ (bitLength \<lfloor>x\<rfloor> - 1))"
      by simp
    also have "\<dots> \<le> of_int \<lfloor>x\<rfloor>"
      using bitLength_lower [OF floor_pos] by (simp only: of_int_le_iff)
    also have "\<dots> \<le> x"
      by simp
    finally show ?thesis .
  next
    case False
    then have "ulp = 1 / 2 ^ nat (52 - e)"
      by (simp add: ulp_def)
    also have "\<dots> \<le> 1"
      by simp
    finally show ?thesis
      using assms by simp
  qed
  have q: "0 \<le> q" "q * ulp = x"
    using x ulp_pos by (simp_all add: q_def)
  have n: "\<lfloor>q\<rfloor> \<le> n" "n \<le> \<lfloor>q\<rfloor> + 1"
    by (simp_all add: n_def)
  from q(1) n(1) have "0 \<le> n"
    by (smt (verit) zero_le_floor)
  then have lower: "0 \<le> of_int n * ulp"
    using ulp_pos by simp
  have "of_int n \<le> q + 1"
    using n(2) by linarith
  then have "of_int n * ulp \<le> (q + 1) * ulp"
    using ulp_pos by (simp only: mult_le_cancel_right_pos)
  also have "\<dots> = x + ulp"
    using q(2) by (simp add: distrib_right)
  also have "\<dots> \<le> 2 * x"
    using ulp_le by simp
  finally show ?thesis
    using lower r by simp
qed

lemma formatTime_seconds:
  "seconds < 60 \<Longrightarrow>
     formatTime seconds = map_option (\<lambda>t. t @ '' seconds'') (toFixed 3 seconds)"
  by (simp add: formatTime_def)

lemma formatTime_minutes:
  "60 \<le> seconds \<Longrightarrow> seconds < 3600 \<Longrightarrow>
     formatTime seconds
       = map_option (\<lambda>t. t @ '' minutes'') (toFixed 2 (roundToDouble (seconds / 60)))"
  by (simp add: formatTime_def)

lemma formatTime_hours:
  "3600 \<le> seconds \<Longrightarrow> seconds < 86400 \<Longrightarrow>
     formatTime seconds
       = map_option (\<lambda>t. t @ '' hours'') (toFixed 2 (roundToDouble (seconds / 3600)))"
  by (simp add: formatTime_def)

lemma formatTime_days:
  "86400 \<le> seconds \<Longrightarrow> seconds < 31536000 \<Longrightarrow>
     formatTime seconds
       = map_option (\<lambda>t. t @ '' days'') (toFixed 2 (roundToDouble (seconds / 86400)))"
  by (simp add: formatTime_def)

lemma formatTime_years:
  "31536000 \<le> seconds \<Longrightarrow>
     formatTime seconds
       = map_option (\<lambda>t. t @ '' years'') (toFixed 2 (roundToDouble (seconds / 31536000)))"
  by (simp add: formatTime_def)

lemma roundToDouble_500: "roundToDouble (500 / 60) = 4691249611844267 / 2 ^ 49"
  by (simp add: roundToDouble_def binaryExponent_def bitLength.simps Let_def)

lemma roundToDouble_3618: "roundToDouble (3618 / 3600) = 1131529406376837 / 2 ^ 50"
  by (simp add: roundToDouble_def binaryExponent_def bitLength.simps Let_def)

lemma roundToDouble_40000000:
  "roundToDouble (40000000 / 31536000) = 5712328294483125 / 2 ^ 52"
  by (simp add: roundToDouble_def binaryExponent_def bitLength.simps Let_def)

lemma formatTime_1282:
  "formatTime (360850920143061 / 2 ^ 48) = Some ''1.282 seconds''"
  "formatTime (1282 / 1000) = Some ''1.282 seconds''"
  by (simp_all add: formatTime_seconds toFixed_def fixedNotation_def decimal.simps Let_def)

lemma formatTime_500: "formatTime 500 = Some ''8.33 minutes''"
proof -
  have "formatTime 500
      = map_option (\<lambda>t. t @ '' minutes'') (toFixed 2 (roundToDouble (500 / 60)))"
    by (rule formatTime_minutes) simp_all
  also have "\<dots> = map_option (\<lambda>t. t @ '' minutes'') (toFixed 2 (4691249611844267 / 2 ^ 49))"
    by (simp only: roundToDouble_500)
  also have "\<dots> = Some ''8.33 minutes''"
    by (simp add: toFixed_def fixedNotation_def decimal.simps Let_def)
  finally show ?thesis .
qed

lemma formatTime_3618: "formatTime 3618 = Some ''1.00 hours''"
proof -
  have "formatTime 3618
      = map_option (\<lambda>t. t @ '' hours'') (toFixed 2 (roundToDouble (3618 / 3600)))"
    by (rule formatTime_hours) simp_all
  also have "\<dots> = map_option (\<lambda>t. t @ '' hours'') (toFixed 2 (1131529406376837 / 2 ^ 50))"
    by (simp only: roundToDouble_3618)
  also have "\<dots> = Some ''1.00 hours''"
    by (simp add: toFixed_def fixedNotation_def decimal.simps Let_def)
  finally show ?thesis .
qed

lemma formatTime_40000000: "formatTime 40000000 = Some ''1.27 years''"
proof -
  have "formatTime 40000000
      = map_option (\<lambda>t. t @ '' years'') (toFixed 2 (roundToDouble (40000000 / 31536000)))"
    by (rule formatTime_years) simp
  also have "\<dots> = map_option (\<lambda>t. t @ '' years'') (toFixed 2 (5712328294483125 / 2 ^ 52))"
    by (simp only: roundToDouble_40000000)
  also have "\<dots> = Some ''1.27 years''"
    by (simp add: toFixed_def fixedNotation_def decimal.simps Let_def)
  finally show ?thesis .
qed

lemma toFixed_quotient:
  assumes "d \<le> seconds" and "seconds < 31536000" and "60 \<le> d"
  shows "toFixed 2 (roundToDouble (seconds / d))
           = Some (fixedNotation 2 (roundToDouble (seconds / d)))"
proof -
  have d: "0 < d" and s: "0 \<le> seconds"
    using assms by simp_all
  have one: "1 \<le> seconds / d"
    using assms(1) d by (simp add: pos_le_divide_eq)
  have "seconds * 1 \<le> seconds * d"
    using assms(3) s by (intro mult_left_mono) simp_all
  then have "seconds / d \<le> seconds"
    using d by (simp add: pos_divide_le_eq)
  with assms(2) have "2 * (seconds / d) < 10 ^ 21"
    by simp
  with roundToDouble_bounds [OF one]
  have "0 \<le> roundToDouble (seconds / d)" and "roundToDouble (seconds / d) < 10 ^ 21"
    by linarith+
  then show ?thesis
    by (rule toFixed_nonneg)
qed

text \<open>
  C8 (as stated, refuted): the claim gives the years band two decimal places for every
  value. At the double \<open>3.1536e28\<close>, which is \<open>31535999999999998998467313664\<close>, the
  double quotient by 31536000 is \<open>10^21\<close>, where \<^verbatim>\<open>toFixed(2)\<close> answers in
  exponential notation: the result is not the quotient printed with two decimal places.
\<close>

theorem formatTime_counterexample:
  "\<not> (31535999999999998998467313664 < (31536000::real)) \<and>
   roundToDouble (31535999999999998998467313664 / 31536000) = 10 ^ 21 \<and>
   formatTime 31535999999999998998467313664 = None \<and>
   formatTime 31535999999999998998467313664
     \<noteq> Some (fixedNotation 2 (roundToDouble (31535999999999998998467313664 / 31536000))
               @ '' years'')"
proof -
  have q: "roundToDouble (31535999999999998998467313664 / 31536000) = 10 ^ 21"
    by (simp add: roundToDouble_def binaryExponent_def bitLength.simps Let_def)
  have "formatTime 31535999999999998998467313664
      = map_option (\<lambda>t. t @ '' years'')
          (toFixed 2 (roundToDouble (31535999999999998998467313664 / 31536000)))"
    by (rule formatTime_years) simp
  also have "\<dots> = map_option (\<lambda>t. t @ '' years'') (toFixed 2 (10 ^ 21))"
    by (simp only: q)
  also have "\<dots> = None"
    by (simp add: toFixed_def)
  finally have "formatTime 31535999999999998998467313664 = None" .
  with q show ?thesis
    by simp
qed

text \<open>
  C8 (amended): for every \<open>seconds > -10^21\<close> whose quotient by 31536000, rounded to a
  double, is below \<open>10^21\<close>, \<^verbatim>\<open>formatTime\<close> selects the band by magnitude: below 60
  the seconds with 3 decimal places (after a minus sign when negative), below 3600 the
  minutes with 2, below 86400 the hours with 2, below 31536000 the days with 2, otherwise
  the years with 2, a year being exactly 31536000 seconds; the number printed is the
  double quotient. Printing \<open>x \<ge> 0\<close> with \<open>f > 0\<close> decimal places gives digits, a point
  and exactly \<open>f\<close> digits, which denote a number within half a unit of the last place
  of \<open>x\<close>. So \<open>formatTime(1.282)\<close> is \<open>1.282 seconds\<close> (for the double nearest to 1.282
  and for the decimal itself), \<open>formatTime(500)\<close> is \<open>8.33 minutes\<close> and
  \<open>formatTime(40000000)\<close> is \<open>1.27 years\<close>; \<open>formatTime(3618)\<close> is \<open>1.00 hours\<close>, the
  double quotient lying below 1.005.
\<close>

theorem formatTime_bands:
  assumes lo: "- (10 ^ 21) < seconds"
    and hi: "roundToDouble (seconds / 31536000) < 10 ^ 21"
  shows "formatTime seconds = Some
           (if seconds < 60 then
              (if seconds < 0 then ''-'' else '''') @ fixedNotation 3 \<bar>seconds\<bar> @ '' seconds''
            else if seconds < 3600 then
              fixedNotation 2 (roundToDouble (seconds / 60)) @ '' minutes''
            else if seconds < 86400 then
              fixedNotation 2 (roundToDouble (seconds / 3600)) @ '' hours''
            else if seconds < 31536000 then
              fixedNotation 2 (roundToDouble (seconds / 86400)) @ '' days''
            else fixedNotation 2 (roundToDouble (seconds / 31536000)) @ '' years'') \<and>
         (0 < f \<and> 0 \<le> x \<longrightarrow>
            (\<exists>a b. fixedNotation f x = a @ ''.'' @ b \<and> a \<noteq> [] \<and> length b = f \<and>
               CHR ''.'' \<notin> set (a @ b) \<and>
               \<bar>real (decimalValue (a @ b)) / 10 ^ f - x\<bar> \<le> 1 / (2 * 10 ^ f))) \<and>
         formatTime (360850920143061 / 2 ^ 48) = Some ''1.282 seconds'' \<and>
         formatTime (1282 / 1000) = Some ''1.282 seconds'' \<and>
         formatTime 500 = Some ''8.33 minutes'' \<and>
         formatTime 3618 = Some ''1.00 hours'' \<and>
         formatTime 40000000 = Some ''1.27 years''"
proof -
  have bands: "formatTime seconds = Some
           (if seconds < 60 then
              (if seconds < 0 then ''-'' else '''') @ fixedNotation 3 \<bar>seconds\<bar> @ '' seconds''
            else if seconds < 3600 then
              fixedNotation 2 (roundToDouble (seconds / 60)) @ '' minutes''
            else if seconds < 86400 then
              fixedNotation 2 (roundToDouble (seconds / 3600)) @ '' hours''
            else if seconds < 31536000 then
              fixedNotation 2 (roundToDouble (seconds / 86400)) @ '' days''
            else fixedNotation 2 (roundToDouble (seconds / 31536000)) @ '' years'')"
  proof -
    consider (seconds) "seconds < 0" | (small) "0 \<le> seconds" "seconds < 60"
      | (minutes) "60 \<le> seconds" "seconds < 3600"
      | (hours) "3600 \<le> seconds" "seconds < 86400"
      | (days) "86400 \<le> seconds" "seconds < 31536000"
      | (years) "31536000 \<le> seconds"
      by linarith
    then show ?thesis
    proof cases
      case seconds
      then have "seconds < 60" by simp
      from formatTime_seconds [OF this] toFixed_neg [OF seconds lo, of 3] seconds
      show ?thesis by simp
    next
      case small
      then have "seconds < 10 ^ 21" by simp
      from formatTime_seconds [OF small(2)] toFixed_nonneg [OF small(1) this, of 3] small
      show ?thesis by simp
    next
      case minutes
      from formatTime_minutes [OF minutes] toFixed_quotient [of 60 seconds] minutes
      show ?thesis by simp
    next
      case hours
      from formatTime_hours [OF hours] toFixed_quotient [of 3600 seconds] hours
      show ?thesis by simp
    next
      case days
      from formatTime_days [OF days] toFixed_quotient [of 86400 seconds] days
      show ?thesis by simp
    next
      case years
      then have "1 \<le> seconds / 31536000"
        by simp
      from roundToDouble_bounds [OF this]
      have "0 \<le> roundToDouble (seconds / 31536000)" ..
      from toFixed_nonneg [OF this hi, of 2] formatTime_years [OF years] years
      show ?thesis by simp
    qed
  qed
  from bands formatTime_1282 formatTime_500 formatTime_3618 formatTime_40000000
    fixedNotation_rounds [of f x]
  show ?thesis
    by blast
qed

text \<open>500 seconds, in the minutes band, and 40000000 seconds, in the years band.\<close>

theorem formatTime_bands_witness:
  "- (10 ^ 21) < (500::real) \<and> roundToDouble (500 / 31536000) < 10 ^ 21 \<and>
   formatTime 500 = Some (fixedNotation 2 (roundToDouble (500 / 60)) @ '' minutes'') \<and>
   - (10 ^ 21) < (40000000::real) \<and> roundToDouble (40000000 / 31536000) < 10 ^ 21 \<and>
   formatTime 40000000
     = Some (fixedNotation 2 (roundToDouble (40000000 / 31536000)) @ '' years'') \<and>
   (0::nat) < 2 \<and> (0::real) \<le> 4691249611844267 / 2 ^ 49 \<and>
   fixedNotation 2 (4691249611844267 / 2 ^ 49) = ''8'' @ ''.'' @ ''33'' \<and>
   \<bar>real (decimalValue (''8'' @ ''33'')) / 10 ^ 2 - 4691249611844267 / 2 ^ 49\<bar>
     \<le> 1 / (2 * 10 ^ 2)"
proof -
  have small: "roundToDouble (500 / 31536000) < 10 ^ 21"
    by (simp add: roundToDouble_def binaryExponent_def bitLength.simps Let_def)
  have large: "roundToDouble (40000000 / 31536000) < 10 ^ 21"
    by (simp only: roundToDouble_40000000) simp
  have lo: "- (10 ^ 21) < (500::real)" "- (10 ^ 21) < (40000000::real)"
    by simp_all
  have minutes: "formatTime 500
      = Some (fixedNotation 2 (roundToDouble (500 / 60)) @ '' minutes'')"
    using formatTime_bands [OF lo(1) small] by simp
  have years: "formatTime 40000000
      = Some (fixedNotation 2 (roundToDouble (40000000 / 31536000)) @ '' years'')"
    using formatTime_bands [OF lo(2) large] by simp
  have printed: "fixedNotation 2 (4691249611844267 / 2 ^ 49) = ''8'' @ ''.'' @ ''33''"
    "\<bar>real (decimalValue (''8'' @ ''33'')) / 10 ^ 2 - 4691249611844267 / 2 ^ 49\<bar>
       \<le> 1 / (2 * 10 ^ 2)"
    by (simp_all add: fixedNotation_def decimal.simps decimalValue_def digitValue_def Let_def)
  from small large lo minutes years printed show ?thesis
    by simp
qed

end
